theory Spec2Isabelle
  imports Complex_Main
begin

section \<open>The Mover node\<close>

text \<open>
  The node arbitrates between the operator's goal waypoint and the waypoint of
  the collision-avoidance object, and publishes the chosen one.  The embedding
  follows \<^verbatim>\<open>src/au_uav_ros/src/mover.cpp\<close> function by function: every
  member function becomes a function on the record of the member variables it
  touches, returning the updated record (and, for the publishing functions, the
  list of effects it produced).

  The \<^verbatim>\<open>float64\<close> fields of the messages are modelled as \<open>real\<close>.  The node
  never computes with them: it compares them with \<^verbatim>\<open>==\<close> against constants and
  converts one longitude to \<^verbatim>\<open>int\<close>.  Values that are not numbers are outside the
  model.  Writes to \<^verbatim>\<open>stderr\<close> and the ROS log are not modelled.
\<close>

subsection \<open>Messages and constants\<close>

text \<open>
  Modelled from the spec: the message type \<^verbatim>\<open>au_uav_ros::Command\<close>, whose
  declaration is not among the sources.  The spec lists its fields as a vehicle
  identifier, latitude, longitude, altitude, a numeric parameter and a
  command-kind identifier; the field names are the ones \<^verbatim>\<open>mover.cpp\<close> uses.
\<close>

record Command =
  planeID :: int
  latitude :: real
  longitude :: real
  altitude :: real
  param :: int
  commandID :: int

text \<open>
  Modelled from the spec: the response of the \<^verbatim>\<open>planeIDGetter\<close> service
  (declaration not among the sources): the vehicle id and the initial
  latitude, longitude and altitude.  The field \<^verbatim>\<open>planeID\<close> of the response is
  named \<open>response_planeID\<close> here.
\<close>

record planeIDGetter_response =
  response_planeID :: int
  initialLatitude :: real
  initialLongitude :: real
  initialAltitude :: real

text \<open>
  The macros \<^verbatim>\<open>INVALID_GPS_COOR\<close>, \<^verbatim>\<open>EMERGENCY_PROTOCOL_LAT\<close> and the three
  \<^verbatim>\<open>META_..._LON\<close> codes are defined in a header that is not among the sources,
  so they are parameters of the model.  The three codes are \<^verbatim>\<open>case\<close> labels of a
  \<^verbatim>\<open>switch\<close> on an \<^verbatim>\<open>int\<close>, hence integers, and a \<^verbatim>\<open>switch\<close> with two equal
  labels does not compile, hence pairwise distinct.
\<close>

record defs =
  INVALID_GPS_COOR :: real
  EMERGENCY_PROTOCOL_LAT :: real
  META_START_CA_ON_LON :: int
  META_STOP_LON :: int
  META_START_CA_OFF_LON :: int

text \<open>
  The conversion \<^verbatim>\<open>(int)com.longitude\<close> discards the fractional part.  C++ defines
  it only where the integral part fits the 32-bit \<^verbatim>\<open>int\<close>; \<open>to_int\<close> is the value of
  the conversion there, and \<open>int_convertible\<close> says that a value is there.  Outside
  that range the behaviour of the code is undefined, and \<open>to_int\<close> says nothing
  about it.  The three codes are \<^verbatim>\<open>int\<close> constants of the program, so they lie in
  that range; a value of \<open>to_int\<close> outside the range equals no code of the program.
\<close>

definition to_int :: "real \<Rightarrow> int" where
  "to_int r = (if 0 \<le> r then \<lfloor>r\<rfloor> else \<lceil>r\<rceil>)"

definition int_convertible :: "real \<Rightarrow> bool" where
  "int_convertible r = (- 2147483648 \<le> to_int r \<and> to_int r \<le> 2147483647)"

subsection \<open>The collision-avoidance object\<close>

text \<open>
  The class of the member \<^verbatim>\<open>ca\<close> is outside the sources.  The node calls three
  of its member functions; each may change the object, so each takes and
  returns the object's state \<open>'ca\<close>.  Telemetry messages are only handed on to
  \<^verbatim>\<open>ca.avoid\<close>, so their type \<open>'t\<close> is left open.
\<close>

record ('t, 'ca) CollisionAvoidance =
  ca_init :: "int \<Rightarrow> 'ca \<Rightarrow> 'ca"
  ca_avoid :: "'t \<Rightarrow> 'ca \<Rightarrow> Command \<times> 'ca"
  ca_setGoalWaypoint :: "Command \<Rightarrow> 'ca \<Rightarrow> 'ca"

subsection \<open>The member variables of the node\<close>

datatype state = ST_RED | ST_GREEN_CA_OFF | ST_GREEN_CA_ON

text \<open>
  The member variables that \<^verbatim>\<open>mover.cpp\<close> reads and writes.  The node's own
  \<^verbatim>\<open>planeID\<close> is named \<open>my_planeID\<close>, since \<open>planeID\<close> is the field of
  \<open>Command\<close>.  \<^verbatim>\<open>ca_wp\<close> is a sequence container used through \<^verbatim>\<open>clear\<close>,
  \<^verbatim>\<open>push_back\<close>, \<^verbatim>\<open>empty\<close>, \<^verbatim>\<open>front\<close> and \<^verbatim>\<open>pop_front\<close>: a list.
\<close>

record 'ca Mover =
  my_planeID :: int
  current_state :: state
  goal_wp :: Command
  ca_wp :: "Command list"
  is_testing :: bool
  initialLat :: real
  initialLong :: real
  initialAlt :: real
  ca :: 'ca

text \<open>What the node does to the outside: it sleeps and it publishes on \<^verbatim>\<open>ca_commands\<close>.\<close>

datatype effect = Sleep real | Publish Command

subsection \<open>Callbacks\<close>

text \<open>
  Lines 41--44 of \<^verbatim>\<open>all_telem_callback\<close>, the region under \<^verbatim>\<open>ca_wp_lock\<close>: the
  operation the spec calls pushAvoidance.
\<close>

definition pushAvoidance :: "Command \<Rightarrow> 'ca Mover \<Rightarrow> 'ca Mover" where
  "pushAvoidance com s = (let s1 = s\<lparr>ca_wp := []\<rparr> in s1\<lparr>ca_wp := ca_wp s1 @ [com]\<rparr>)"

text \<open>The command that \<^verbatim>\<open>all_telem_callback\<close> holds in \<^verbatim>\<open>com\<close> at line 36, and the node then.\<close>

definition telem_candidate ::
  "('t, 'ca) CollisionAvoidance \<Rightarrow> 't \<Rightarrow> 'ca Mover \<Rightarrow> Command \<times> 'ca Mover" where
  "telem_candidate cav telem s =
     (if \<not> is_testing s
      then (let (com, ca') = ca_avoid cav telem (ca s) in (com, s\<lparr>ca := ca'\<rparr>))
      else (goal_wp s, s))"

definition all_telem_callback ::
  "defs \<Rightarrow> ('t, 'ca) CollisionAvoidance \<Rightarrow> 't \<Rightarrow> 'ca Mover \<Rightarrow> 'ca Mover" where
  "all_telem_callback d cav telem s =
     (let (com, s1) = telem_candidate cav telem s in
      if latitude com = INVALID_GPS_COOR d \<and> longitude com = INVALID_GPS_COOR d
         \<and> altitude com = INVALID_GPS_COOR d
      then s1
      else pushAvoidance com s1)"

definition gcs_command_callback ::
  "defs \<Rightarrow> ('t, 'ca) CollisionAvoidance \<Rightarrow> Command \<Rightarrow> 'ca Mover \<Rightarrow> 'ca Mover" where
  "gcs_command_callback d cav com s =
     (if my_planeID s = planeID com then
        (if latitude com = EMERGENCY_PROTOCOL_LAT d then
           (let incomingCommand = to_int (longitude com) in
            if incomingCommand = META_START_CA_ON_LON d then s\<lparr>current_state := ST_GREEN_CA_ON\<rparr>
            else if incomingCommand = META_STOP_LON d then s\<lparr>current_state := ST_RED\<rparr>
            else if incomingCommand = META_START_CA_OFF_LON d then s\<lparr>current_state := ST_GREEN_CA_OFF\<rparr>
            else s)
         else
           (let s1 = s\<lparr>goal_wp := com\<rparr> in s1\<lparr>ca := ca_setGoalWaypoint cav com (ca s1)\<rparr>))
      else s)"

subsection \<open>Start-up\<close>

text \<open>
  \<^verbatim>\<open>init\<close>, lines 106--144.  The set-up of the ROS handles is left out.
  \<open>srv\<close> is the outcome of \<^verbatim>\<open>IDclient.call(srv)\<close>: \<open>None\<close> when the call fails,
  the response otherwise.  The result \<open>None\<close> is the return value \<^verbatim>\<open>false\<close>.
  An assignment \<^verbatim>\<open>a = b = e\<close> stores \<open>e\<close> in \<open>b\<close> first and then in \<open>a\<close>.
\<close>

definition seed_from_response :: "planeIDGetter_response \<Rightarrow> 'ca Mover \<Rightarrow> 'ca Mover" where
  "seed_from_response response s =
     (let s1 = s\<lparr>my_planeID := response_planeID response\<rparr>;
          s2 = s1\<lparr>goal_wp := (goal_wp s1)\<lparr>planeID := my_planeID s1\<rparr>\<rparr>;
          s3 = s2\<lparr>initialLat := initialLatitude response\<rparr>;
          s4 = s3\<lparr>goal_wp := (goal_wp s3)\<lparr>latitude := initialLat s3\<rparr>\<rparr>;
          s5 = s4\<lparr>initialLong := initialLongitude response\<rparr>;
          s6 = s5\<lparr>goal_wp := (goal_wp s5)\<lparr>longitude := initialLong s5\<rparr>\<rparr>;
          s7 = s6\<lparr>initialAlt := initialLatitude response\<rparr>;
          s8 = s7\<lparr>goal_wp := (goal_wp s7)\<lparr>latitude := initialAlt s7\<rparr>\<rparr>;
          s9 = s8\<lparr>goal_wp := (goal_wp s8)\<lparr>param := 2\<rparr>\<rparr>
      in s9\<lparr>goal_wp := (goal_wp s9)\<lparr>commandID := 2\<rparr>\<rparr>)"

definition init ::
  "('t, 'ca) CollisionAvoidance \<Rightarrow> planeIDGetter_response option \<Rightarrow> bool \<Rightarrow> 'ca Mover
     \<Rightarrow> 'ca Mover option" where
  "init cav srv test s =
     (case (if test then Some (s\<lparr>my_planeID := 999\<rparr>)
            else (case srv of
                    Some response \<Rightarrow> Some (seed_from_response response s)
                  | None \<Rightarrow> None)) of
        None \<Rightarrow> None
      | Some s1 \<Rightarrow>
          Some (s1\<lparr>ca := ca_init cav (my_planeID s1) (ca s1),
                    current_state := ST_RED,
                    is_testing := test\<rparr>))"

subsection \<open>The publishing loop\<close>

definition goalCommandPublish :: "'ca Mover \<Rightarrow> effect list \<times> 'ca Mover" where
  "goalCommandPublish s = (let com = goal_wp s in ([Publish com], s))"

text \<open>
  Lines 210--217 of \<^verbatim>\<open>caCommandPublish\<close>, the region under \<^verbatim>\<open>ca_wp_lock\<close>: the
  operation the spec calls popAvoidance.  The result is \<open>None\<close> when
  \<^verbatim>\<open>empty_ca_q\<close> is true, and the front entry otherwise.
\<close>

definition popAvoidance :: "'ca Mover \<Rightarrow> Command option \<times> 'ca Mover" where
  "popAvoidance s =
     (case ca_wp s of
        [] \<Rightarrow> (None, s)
      | com # rest \<Rightarrow> (Some com, s\<lparr>ca_wp := rest\<rparr>))"

definition caCommandPublish :: "'ca Mover \<Rightarrow> effect list \<times> 'ca Mover" where
  "caCommandPublish s =
     (let (r, s1) = popAvoidance s in
      (case r of None \<Rightarrow> [] | Some com \<Rightarrow> [Publish com], s1))"

text \<open>
  An iteration of the loop of \<^verbatim>\<open>move\<close> reads the mode twice.  Lines 170--173 copy
  \<^verbatim>\<open>current_state\<close> to \<^verbatim>\<open>temp\<close> under \<^verbatim>\<open>state_change_lock\<close>.  Lines 175--187
  are the \<^verbatim>\<open>switch\<close>; it does not use \<^verbatim>\<open>temp\<close> but reads \<^verbatim>\<open>current_state\<close> again,
  without the lock.  \<open>move_switch\<close> is the \<^verbatim>\<open>switch\<close>, given the value of \<^verbatim>\<open>temp\<close>
  and the node at the time of its own read.
\<close>

definition move_switch :: "state \<Rightarrow> 'ca Mover \<Rightarrow> effect list \<times> 'ca Mover" where
  "move_switch temp s =
     (case current_state s of
        ST_RED \<Rightarrow> ([], s)
      | ST_GREEN_CA_OFF \<Rightarrow>
          (let (out, s1) = goalCommandPublish s in (Sleep (1/4) # out, s1))
      | ST_GREEN_CA_ON \<Rightarrow>
          (let (out, s1) = caCommandPublish s in (Sleep (1/4) # out, s1)))"

text \<open>
  One iteration, lines 167--187, when no callback runs between its two reads of
  the mode.
\<close>

definition move_iter :: "'ca Mover \<Rightarrow> effect list \<times> 'ca Mover" where
  "move_iter s = (let temp = current_state s in move_switch temp s)"

text \<open>
  The loop \<^verbatim>\<open>while(ros::ok())\<close> of \<^verbatim>\<open>move\<close>: the first argument is the number of
  times \<^verbatim>\<open>ros::ok()\<close> answers true before the shutdown.
\<close>

fun move :: "nat \<Rightarrow> 'ca Mover \<Rightarrow> effect list \<times> 'ca Mover" where
  "move 0 s = ([], s)"
| "move (Suc n) s =
     (let (out, s1) = move_iter s; (outs, s2) = move n s1 in (out @ outs, s2))"

subsection \<open>The two threads\<close>

text \<open>
  The callbacks run on the spinner thread, one at a time, while \<^verbatim>\<open>move\<close> runs
  on the main thread.  A schedule lists the callbacks and the loop iterations in
  the order in which they take effect; a loop iteration of a schedule is
  \<open>move_iter\<close>, with no callback between its two reads of the mode.
\<close>

datatype 't event = Telemetry 't | Gcs Command | Tick

definition step ::
  "defs \<Rightarrow> ('t, 'ca) CollisionAvoidance \<Rightarrow> 't event \<Rightarrow> 'ca Mover \<Rightarrow> effect list \<times> 'ca Mover" where
  "step d cav e s =
     (case e of
        Telemetry telem \<Rightarrow> ([], all_telem_callback d cav telem s)
      | Gcs com \<Rightarrow> ([], gcs_command_callback d cav com s)
      | Tick \<Rightarrow> move_iter s)"

fun run ::
  "defs \<Rightarrow> ('t, 'ca) CollisionAvoidance \<Rightarrow> 't event list \<Rightarrow> 'ca Mover \<Rightarrow> effect list \<times> 'ca Mover" where
  "run d cav [] s = ([], s)"
| "run d cav (e # es) s =
     (let (out, s1) = step d cav e s; (outs, s2) = run d cav es s1 in (out @ outs, s2))"

text \<open>
  The spinner thread can also run callbacks between the two reads of one
  iteration.  \<open>spin\<close> runs a list of callbacks in order.  \<open>move_iter_spin\<close> is the
  iteration in which the callbacks \<open>cbs\<close> run after the locked read of line 172
  and before the \<^verbatim>\<open>switch\<close> of line 175; it returns the value of \<^verbatim>\<open>temp\<close>, the
  effects and the node.
\<close>

datatype 't callback = OnTelemetry 't | OnCommand Command

fun spin ::
  "defs \<Rightarrow> ('t, 'ca) CollisionAvoidance \<Rightarrow> 't callback list \<Rightarrow> 'ca Mover \<Rightarrow> 'ca Mover" where
  "spin d cav [] s = s"
| "spin d cav (OnTelemetry telem # cbs) s = spin d cav cbs (all_telem_callback d cav telem s)"
| "spin d cav (OnCommand com # cbs) s = spin d cav cbs (gcs_command_callback d cav com s)"

definition move_iter_spin ::
  "defs \<Rightarrow> ('t, 'ca) CollisionAvoidance \<Rightarrow> 't callback list \<Rightarrow> 'ca Mover
     \<Rightarrow> state \<times> effect list \<times> 'ca Mover" where
  "move_iter_spin d cav cbs s =
     (let temp = current_state s;
          s1 = spin d cav cbs s;
          (out, s2) = move_switch temp s1
      in (temp, out, s2))"

subsection \<open>A concrete instance\<close>

text \<open>
  Values for the constants and a small collision-avoidance object, for the
  concrete instances below: the object remembers the last goal it was given,
  and \<open>avoid\<close> proposes the command it is handed as telemetry.
\<close>

definition example_defs :: defs where
  "example_defs =
     \<lparr>INVALID_GPS_COOR = -1000, EMERGENCY_PROTOCOL_LAT = -2000,
      META_START_CA_ON_LON = 1, META_STOP_LON = 2, META_START_CA_OFF_LON = 3\<rparr>"

definition example_ca :: "(Command, Command) CollisionAvoidance" where
  "example_ca =
     \<lparr>ca_init = (\<lambda>i c. c\<lparr>planeID := i\<rparr>),
      ca_avoid = (\<lambda>telem c. (telem, c)),
      ca_setGoalWaypoint = (\<lambda>com c. com)\<rparr>"

definition wp :: "int \<Rightarrow> real \<Rightarrow> real \<Rightarrow> real \<Rightarrow> Command" where
  "wp i la lo al =
     \<lparr>planeID = i, latitude = la, longitude = lo, altitude = al, param = 0, commandID = 0\<rparr>"

definition example_mover :: "state \<Rightarrow> Command list \<Rightarrow> Command Mover" where
  "example_mover st q =
     \<lparr>my_planeID = 7, current_state = st, goal_wp = wp 7 1 2 3, ca_wp = q,
      is_testing = False, initialLat = 0, initialLong = 0, initialAlt = 0,
      ca = wp 7 1 2 3\<rparr>"

text \<open>
  A node before \<^verbatim>\<open>init\<close>: the message \<^verbatim>\<open>goal_wp\<close> is zero-initialised and the
  container \<^verbatim>\<open>ca_wp\<close> is empty.
\<close>

definition fresh_mover :: "Command Mover" where
  "fresh_mover =
     \<lparr>my_planeID = 0, current_state = ST_RED, goal_wp = wp 0 0 0 0, ca_wp = [],
      is_testing = False, initialLat = 0, initialLong = 0, initialAlt = 0,
      ca = wp 0 0 0 0\<rparr>"

section \<open>Facts about the single functions\<close>

lemma move_iter_red: "current_state s = ST_RED \<Longrightarrow> move_iter s = ([], s)"
  by (simp add: move_iter_def move_switch_def)

lemma move_iter_ca_off:
  "current_state s = ST_GREEN_CA_OFF \<Longrightarrow> move_iter s = ([Sleep (1/4), Publish (goal_wp s)], s)"
  by (simp add: move_iter_def move_switch_def goalCommandPublish_def)

lemma goal_wp_all_telem [simp]: "goal_wp (all_telem_callback d cav telem s) = goal_wp s"
  by (auto simp add: all_telem_callback_def telem_candidate_def pushAvoidance_def split: prod.splits)

lemma goal_wp_move_iter [simp]: "goal_wp (snd (move_iter s)) = goal_wp s"
  by (auto simp add: move_iter_def move_switch_def goalCommandPublish_def caCommandPublish_def popAvoidance_def
      split: state.splits list.splits prod.splits)

lemma goal_wp_gcs:
  "goal_wp (gcs_command_callback d cav com s) =
     (if my_planeID s = planeID com \<and> latitude com \<noteq> EMERGENCY_PROTOCOL_LAT d then com else goal_wp s)"
  by (simp add: gcs_command_callback_def Let_def)

lemma move_iter_ca_on:
  "current_state s = ST_GREEN_CA_ON \<Longrightarrow>
   move_iter s = (Sleep (1/4) # (case fst (popAvoidance s) of None \<Rightarrow> [] | Some com \<Rightarrow> [Publish com]),
                  snd (popAvoidance s))"
  by (simp add: move_iter_def move_switch_def caCommandPublish_def split_def Let_def)

lemma telem_candidate_fst:
  "fst (telem_candidate cav telem s) =
     (if is_testing s then goal_wp s else fst (ca_avoid cav telem (ca s)))"
  by (simp add: telem_candidate_def split_def Let_def)

lemma init_altitude_unchanged:
  "init cav srv test s = Some s' \<Longrightarrow> altitude (goal_wp s') = altitude (goal_wp s)"
  by (auto simp add: init_def seed_from_response_def Let_def split: if_splits option.splits)

section \<open>The avoidance queue holds at most one entry\<close>

text \<open>
  \<^verbatim>\<open>init\<close> and \<^verbatim>\<open>gcs_command_callback\<close> leave \<^verbatim>\<open>ca_wp\<close> alone, the telemetry
  callback leaves it alone or replaces it by a single entry, and an iteration of
  the loop leaves it alone or drops its front entry.  So in every state the node
  reaches after it was constructed with an empty container, the queue has at
  most one entry.
\<close>

lemma ca_wp_init: "init cav srv test s = Some s' \<Longrightarrow> ca_wp s' = ca_wp s"
  by (auto simp add: init_def seed_from_response_def Let_def split: if_splits option.splits)

lemma ca_wp_gcs [simp]: "ca_wp (gcs_command_callback d cav com s) = ca_wp s"
  by (simp add: gcs_command_callback_def Let_def)

lemma ca_wp_telem_candidate [simp]: "ca_wp (snd (telem_candidate cav telem s)) = ca_wp s"
  by (simp add: telem_candidate_def split: prod.splits)

lemma ca_wp_all_telem:
  "ca_wp (all_telem_callback d cav telem s) = ca_wp s
   \<or> ca_wp (all_telem_callback d cav telem s) = [fst (telem_candidate cav telem s)]"
  by (cases "telem_candidate cav telem s")
     (auto simp add: all_telem_callback_def pushAvoidance_def dest: arg_cong [where f = "\<lambda>p. ca_wp (snd p)"])

lemma ca_wp_move_iter: "ca_wp (snd (move_iter s)) = ca_wp s \<or> ca_wp (snd (move_iter s)) = tl (ca_wp s)"
  by (auto simp add: move_iter_def move_switch_def goalCommandPublish_def caCommandPublish_def popAvoidance_def
      split: state.splits list.splits prod.splits)

lemma queue_bound_step:
  assumes "length (ca_wp s) \<le> 1"
  shows "length (ca_wp (snd (step d cav e s))) \<le> 1"
proof (cases e)
  case (Telemetry telem)
  with assms ca_wp_all_telem [of d cav telem s] show ?thesis
    by (auto simp add: step_def)
next
  case (Gcs com)
  with assms show ?thesis by (simp add: step_def)
next
  case Tick
  with assms ca_wp_move_iter [of s] show ?thesis
    by (auto simp add: step_def)
qed

lemma queue_bound_run:
  "length (ca_wp s) \<le> 1 \<Longrightarrow> length (ca_wp (snd (run d cav es s))) \<le> 1"
proof (induction es arbitrary: s)
  case Nil
  then show ?case by simp
next
  case (Cons e es)
  from Cons.prems have "length (ca_wp (snd (step d cav e s))) \<le> 1"
    by (rule queue_bound_step)
  then have "length (ca_wp (snd (run d cav es (snd (step d cav e s))))) \<le> 1"
    by (rule Cons.IH)
  then show ?case
    by (simp add: split_def Let_def)
qed

lemma queue_bound_reachable:
  assumes "ca_wp s0 = []" and "init cav srv test s0 = Some s"
  shows "length (ca_wp (snd (run d cav es s))) \<le> 1"
proof -
  from assms have "length (ca_wp s) \<le> 1"
    by (simp add: ca_wp_init)
  then show ?thesis
    by (rule queue_bound_run)
qed

section \<open>The publishing loop\<close>

text \<open>
  When no callback runs between the two reads of the mode, an iteration that
  finds \<open>ST_RED\<close> emits nothing, does not sleep and leaves the node as it is,
  whatever \<^verbatim>\<open>goal_wp\<close> and \<^verbatim>\<open>ca_wp\<close> contain, and so does any number of such
  iterations.  With callbacks in between, the same holds of the mode that the
  \<^verbatim>\<open>switch\<close> reads, not of the mode that was copied to \<^verbatim>\<open>temp\<close>.
\<close>

lemma move_red_atomic:
  assumes "current_state s = ST_RED"
  shows "move_iter s = ([], s) \<and> move n s = ([], s)"
proof -
  have loop: "move k t = ([], t)" if "current_state t = ST_RED" for k and t :: "'a Mover"
    using that by (induction k) (simp_all add: move_iter_red)
  from assms show ?thesis
    by (simp add: move_iter_red loop)
qed

lemma move_iter_spin_nil: "move_iter_spin d cav [] s = (current_state s, move_iter s)"
  by (simp add: move_iter_spin_def move_iter_def split_def Let_def)

lemma move_iter_spin_switch_red:
  "current_state (spin d cav cbs s) = ST_RED \<Longrightarrow>
   move_iter_spin d cav cbs s = (current_state s, [], spin d cav cbs s)"
  by (simp add: move_iter_spin_def move_switch_def)


text \<open>
  C2: in AvoidGuided mode (\<open>ST_GREEN_CA_ON\<close>) an iteration sleeps and performs
  popAvoidance exactly once: what it emits is what that one pop returned, and
  the node afterwards is the node after that one pop.  With an empty queue it
  emits nothing, whatever \<^verbatim>\<open>goal_wp\<close> holds; with a pending entry it emits that
  entry and removes it, and the next iteration, with no push in between, emits
  nothing.  The queue is taken to hold at most one entry, as it does in every
  reachable state (\<open>queue_bound_reachable\<close>).
\<close>

theorem avoid_guided_tick:
  assumes "current_state s = ST_GREEN_CA_ON" and "length (ca_wp s) \<le> 1"
  shows "move_iter s =
           (Sleep (1/4) # (case fst (popAvoidance s) of None \<Rightarrow> [] | Some com \<Rightarrow> [Publish com]),
            snd (popAvoidance s))
         \<and> (ca_wp s = [] \<and> move_iter s = ([Sleep (1/4)], s)
            \<or> (\<exists>com. ca_wp s = [com]
                  \<and> move_iter s = ([Sleep (1/4), Publish com], s\<lparr>ca_wp := []\<rparr>)))
         \<and> ca_wp (snd (move_iter s)) = []
         \<and> move_iter (snd (move_iter s)) = ([Sleep (1/4)], snd (move_iter s))"
proof (cases "ca_wp s")
  case Nil
  with assms(1) show ?thesis
    by (simp add: move_iter_ca_on popAvoidance_def)
next
  case (Cons com rest)
  with assms(2) have q: "ca_wp s = [com]" by simp
  have first: "move_iter s = ([Sleep (1/4), Publish com], s\<lparr>ca_wp := []\<rparr>)"
    using assms(1) q by (simp add: move_iter_ca_on popAvoidance_def)
  have second: "move_iter (s\<lparr>ca_wp := []\<rparr>) = ([Sleep (1/4)], s\<lparr>ca_wp := []\<rparr>)"
    using assms(1) by (simp add: move_iter_ca_on popAvoidance_def)
  from assms(1) q first second show ?thesis
    by (simp add: move_iter_ca_on popAvoidance_def)
qed

theorem avoid_guided_tick_witness:
  "current_state (example_mover ST_GREEN_CA_ON [wp 7 5 6 7]) = ST_GREEN_CA_ON
   \<and> length (ca_wp (example_mover ST_GREEN_CA_ON [wp 7 5 6 7])) \<le> 1
   \<and> move_iter (example_mover ST_GREEN_CA_ON [wp 7 5 6 7]) =
       ([Sleep (1/4), Publish (wp 7 5 6 7)], example_mover ST_GREEN_CA_ON [])
   \<and> move_iter (snd (move_iter (example_mover ST_GREEN_CA_ON [wp 7 5 6 7]))) =
       ([Sleep (1/4)], example_mover ST_GREEN_CA_ON [])"
proof -
  let ?s = "example_mover ST_GREEN_CA_ON [wp 7 5 6 7] :: Command Mover"
  have h: "current_state ?s = ST_GREEN_CA_ON"
    by (simp add: example_mover_def)
  have q: "ca_wp ?s = [wp 7 5 6 7]"
    by (simp add: example_mover_def)
  then have b: "length (ca_wp ?s) \<le> 1"
    by simp
  have e: "?s\<lparr>ca_wp := []\<rparr> = example_mover ST_GREEN_CA_ON []"
    by (simp add: example_mover_def)
  from avoid_guided_tick [OF h b] q e
  have "move_iter ?s = ([Sleep (1/4), Publish (wp 7 5 6 7)], example_mover ST_GREEN_CA_ON [])
        \<and> move_iter (snd (move_iter ?s)) = ([Sleep (1/4)], example_mover ST_GREEN_CA_ON [])"
    by auto
  with h b show ?thesis
    by blast
qed

text \<open>
  C3: in DirectGoal mode (\<open>ST_GREEN_CA_OFF\<close>) every iteration sleeps and then
  emits the current \<^verbatim>\<open>goal_wp\<close>, so \<open>n\<close> iterations emit it \<open>n\<close> times, changed or
  not.  The command to be emitted changes only through an operator command for
  this vehicle that is not a meta command, and is then exactly that command.
\<close>

theorem direct_goal_keep_alive:
  assumes "current_state s = ST_GREEN_CA_OFF"
  shows "move_iter s = ([Sleep (1/4), Publish (goal_wp s)], s)
         \<and> move n s = (concat (replicate n [Sleep (1/4), Publish (goal_wp s)]), s)
         \<and> (goal_wp (snd (step d cav e s)) = goal_wp s
            \<or> (\<exists>com. e = Gcs com \<and> my_planeID s = planeID com
                  \<and> latitude com \<noteq> EMERGENCY_PROTOCOL_LAT d
                  \<and> goal_wp (snd (step d cav e s)) = com))"
proof -
  have loop: "move k t = (concat (replicate k [Sleep (1/4), Publish (goal_wp t)]), t)"
    if "current_state t = ST_GREEN_CA_OFF" for k and t :: "'a Mover"
    using that by (induction k) (simp_all add: move_iter_ca_off)
  have frame: "goal_wp (snd (step d cav e s)) = goal_wp s
      \<or> (\<exists>com. e = Gcs com \<and> my_planeID s = planeID com
            \<and> latitude com \<noteq> EMERGENCY_PROTOCOL_LAT d
            \<and> goal_wp (snd (step d cav e s)) = com)"
    by (cases e) (simp_all add: step_def goal_wp_gcs)
  from assms show ?thesis
    using frame by (simp add: move_iter_ca_off loop)
qed

theorem direct_goal_keep_alive_witness:
  "current_state (example_mover ST_GREEN_CA_OFF []) = ST_GREEN_CA_OFF
   \<and> move 2 (example_mover ST_GREEN_CA_OFF []) =
       ([Sleep (1/4), Publish (wp 7 1 2 3), Sleep (1/4), Publish (wp 7 1 2 3)],
        example_mover ST_GREEN_CA_OFF [])
   \<and> goal_wp (snd (step example_defs example_ca (Gcs (wp 7 10 20 30))
         (example_mover ST_GREEN_CA_OFF []))) = wp 7 10 20 30
   \<and> goal_wp (snd (step example_defs example_ca (Gcs (wp 7 10 20 30))
         (example_mover ST_GREEN_CA_OFF []))) \<noteq> goal_wp (example_mover ST_GREEN_CA_OFF [])"
proof -
  let ?s = "example_mover ST_GREEN_CA_OFF [] :: Command Mover"
  have h: "current_state ?s = ST_GREEN_CA_OFF"
    by (simp add: example_mover_def)
  have g: "goal_wp ?s = wp 7 1 2 3"
    by (simp add: example_mover_def)
  note t = direct_goal_keep_alive [OF h, of 2 example_defs example_ca "Gcs (wp 7 10 20 30)"]
  from t g have loop: "move 2 ?s =
      ([Sleep (1/4), Publish (wp 7 1 2 3), Sleep (1/4), Publish (wp 7 1 2 3)], ?s)"
    by (simp add: numeral_2_eq_2)
  have new: "wp 7 10 20 30 \<noteq> wp 7 1 2 3"
    by (simp add: wp_def)
  with t g have "goal_wp (snd (step example_defs example_ca (Gcs (wp 7 10 20 30)) ?s)) = wp 7 10 20 30"
    by (auto simp add: step_def gcs_command_callback_def example_mover_def example_defs_def wp_def)
  with h g loop new show ?thesis
    by simp
qed

section \<open>Operator commands\<close>

text \<open>
  C4: a command for this vehicle whose latitude is \<^verbatim>\<open>EMERGENCY_PROTOCOL_LAT\<close>
  sets the mode by its code, from any mode: the start-avoidance code gives
  \<open>ST_GREEN_CA_ON\<close>, the stop code \<open>ST_RED\<close>, the start-direct code
  \<open>ST_GREEN_CA_OFF\<close>.  Nothing but the mode changes: \<^verbatim>\<open>goal_wp\<close>, the queue and
  the collision-avoidance object stay as they are.
\<close>

theorem meta_command_sets_mode:
  assumes "my_planeID s = planeID com"
    and "latitude com = EMERGENCY_PROTOCOL_LAT d"
    and "distinct [META_START_CA_ON_LON d, META_STOP_LON d, META_START_CA_OFF_LON d]"
  shows "(to_int (longitude com) = META_START_CA_ON_LON d \<longrightarrow>
            current_state (gcs_command_callback d cav com s) = ST_GREEN_CA_ON)
       \<and> (to_int (longitude com) = META_STOP_LON d \<longrightarrow>
            current_state (gcs_command_callback d cav com s) = ST_RED)
       \<and> (to_int (longitude com) = META_START_CA_OFF_LON d \<longrightarrow>
            current_state (gcs_command_callback d cav com s) = ST_GREEN_CA_OFF)
       \<and> goal_wp (gcs_command_callback d cav com s) = goal_wp s
       \<and> ca (gcs_command_callback d cav com s) = ca s
       \<and> ca_wp (gcs_command_callback d cav com s) = ca_wp s
       \<and> gcs_command_callback d cav com s =
           s\<lparr>current_state := current_state (gcs_command_callback d cav com s)\<rparr>"
  using assms by (simp add: gcs_command_callback_def Let_def)

theorem meta_command_sets_mode_witness:
  "my_planeID (example_mover ST_RED [] :: Command Mover) = planeID (wp 7 (-2000) 1 0)
   \<and> latitude (wp 7 (-2000) 1 0) = EMERGENCY_PROTOCOL_LAT example_defs
   \<and> distinct [META_START_CA_ON_LON example_defs, META_STOP_LON example_defs,
        META_START_CA_OFF_LON example_defs]
   \<and> to_int (longitude (wp 7 (-2000) 1 0)) = META_START_CA_ON_LON example_defs
   \<and> to_int (longitude (wp 7 (-2000) 2 0)) = META_STOP_LON example_defs
   \<and> to_int (longitude (wp 7 (-2000) 3 0)) = META_START_CA_OFF_LON example_defs
   \<and> gcs_command_callback example_defs example_ca (wp 7 (-2000) 1 0) (example_mover ST_RED [])
       = example_mover ST_GREEN_CA_ON []
   \<and> gcs_command_callback example_defs example_ca (wp 7 (-2000) 2 0) (example_mover ST_GREEN_CA_ON [])
       = example_mover ST_RED []
   \<and> gcs_command_callback example_defs example_ca (wp 7 (-2000) 3 0) (example_mover ST_GREEN_CA_ON [])
       = example_mover ST_GREEN_CA_OFF []"
proof -
  have i: "my_planeID (example_mover st [] :: Command Mover) = planeID (wp 7 (-2000) lo 0)"
    for st lo
    by (simp add: example_mover_def wp_def)
  have l: "latitude (wp 7 (-2000) lo 0) = EMERGENCY_PROTOCOL_LAT example_defs" for lo
    by (simp add: example_defs_def wp_def)
  have c: "distinct [META_START_CA_ON_LON example_defs, META_STOP_LON example_defs,
      META_START_CA_OFF_LON example_defs]"
    by (simp add: example_defs_def)
  have t1: "to_int (longitude (wp 7 (-2000) 1 0)) = META_START_CA_ON_LON example_defs"
    and t2: "to_int (longitude (wp 7 (-2000) 2 0)) = META_STOP_LON example_defs"
    and t3: "to_int (longitude (wp 7 (-2000) 3 0)) = META_START_CA_OFF_LON example_defs"
    by (simp_all add: example_defs_def wp_def to_int_def)
  have u: "(example_mover st [] :: Command Mover)\<lparr>current_state := m\<rparr> = example_mover m []"
    for st m
    by (simp add: example_mover_def)
  note m1 = meta_command_sets_mode [where cav = example_ca, OF i [of ST_RED 1] l [of 1] c]
  from m1 t1 have c1: "current_state (gcs_command_callback example_defs example_ca
      (wp 7 (-2000) 1 0) (example_mover ST_RED [])) = ST_GREEN_CA_ON"
    by blast
  have "(example_mover ST_RED [] :: Command Mover)\<lparr>current_state := current_state
      (gcs_command_callback example_defs example_ca (wp 7 (-2000) 1 0) (example_mover ST_RED []))\<rparr>
      = example_mover ST_GREEN_CA_ON []"
    by (simp only: c1 u)
  with m1 have r1: "gcs_command_callback example_defs example_ca (wp 7 (-2000) 1 0)
      (example_mover ST_RED []) = example_mover ST_GREEN_CA_ON []"
    by (blast intro: trans)
  note m2 = meta_command_sets_mode [where cav = example_ca, OF i [of ST_GREEN_CA_ON 2] l [of 2] c]
  from m2 t2 have c2: "current_state (gcs_command_callback example_defs example_ca
      (wp 7 (-2000) 2 0) (example_mover ST_GREEN_CA_ON [])) = ST_RED"
    by blast
  have "(example_mover ST_GREEN_CA_ON [] :: Command Mover)\<lparr>current_state := current_state
      (gcs_command_callback example_defs example_ca (wp 7 (-2000) 2 0) (example_mover ST_GREEN_CA_ON []))\<rparr>
      = example_mover ST_RED []"
    by (simp only: c2 u)
  with m2 have r2: "gcs_command_callback example_defs example_ca (wp 7 (-2000) 2 0)
      (example_mover ST_GREEN_CA_ON []) = example_mover ST_RED []"
    by (blast intro: trans)
  note m3 = meta_command_sets_mode [where cav = example_ca, OF i [of ST_GREEN_CA_ON 3] l [of 3] c]
  from m3 t3 have c3: "current_state (gcs_command_callback example_defs example_ca
      (wp 7 (-2000) 3 0) (example_mover ST_GREEN_CA_ON [])) = ST_GREEN_CA_OFF"
    by blast
  have "(example_mover ST_GREEN_CA_ON [] :: Command Mover)\<lparr>current_state := current_state
      (gcs_command_callback example_defs example_ca (wp 7 (-2000) 3 0) (example_mover ST_GREEN_CA_ON []))\<rparr>
      = example_mover ST_GREEN_CA_OFF []"
    by (simp only: c3 u)
  with m3 have r3: "gcs_command_callback example_defs example_ca (wp 7 (-2000) 3 0)
      (example_mover ST_GREEN_CA_ON []) = example_mover ST_GREEN_CA_OFF []"
    by (blast intro: trans)
  from i [of ST_RED 1] l [of 1] c t1 t2 t3 r1 r2 r3 show ?thesis
    by blast
qed

text \<open>
  C7: a command whose vehicle identifier is not this node's is dropped: the
  node, with its mode, \<^verbatim>\<open>goal_wp\<close>, queue and collision-avoidance object, is
  unchanged, and the callback returns normally.
\<close>

theorem foreign_command_ignored:
  "my_planeID s \<noteq> planeID com \<Longrightarrow> gcs_command_callback d cav com s = s"
  by (simp add: gcs_command_callback_def)

theorem foreign_command_ignored_witness:
  "my_planeID (example_mover ST_GREEN_CA_OFF [wp 7 5 6 7]) \<noteq> planeID (wp 8 (-2000) 2 0)
   \<and> my_planeID (example_mover ST_GREEN_CA_OFF [wp 7 5 6 7]) \<noteq> planeID (wp 8 10 20 30)
   \<and> gcs_command_callback example_defs example_ca (wp 8 (-2000) 2 0)
        (example_mover ST_GREEN_CA_OFF [wp 7 5 6 7]) = example_mover ST_GREEN_CA_OFF [wp 7 5 6 7]
   \<and> gcs_command_callback example_defs example_ca (wp 8 10 20 30)
        (example_mover ST_GREEN_CA_OFF [wp 7 5 6 7]) = example_mover ST_GREEN_CA_OFF [wp 7 5 6 7]"
proof -
  let ?s = "example_mover ST_GREEN_CA_OFF [wp 7 5 6 7] :: Command Mover"
  have i: "my_planeID ?s \<noteq> planeID (wp 8 la lo al)" for la lo al
    by (simp add: example_mover_def wp_def)
  from i foreign_command_ignored [OF i, of example_defs example_ca]
  show ?thesis by simp
qed

text \<open>
  C10: a command for this vehicle whose latitude is \<^verbatim>\<open>EMERGENCY_PROTOCOL_LAT\<close>
  and whose longitude gives none of the three codes changes nothing.  The
  longitude is one that the conversion to \<^verbatim>\<open>int\<close> is defined for.
\<close>

theorem unknown_meta_code_dropped:
  assumes "my_planeID s = planeID com"
    and "latitude com = EMERGENCY_PROTOCOL_LAT d"
    and "int_convertible (longitude com)"
    and "to_int (longitude com) \<noteq> META_START_CA_ON_LON d"
    and "to_int (longitude com) \<noteq> META_STOP_LON d"
    and "to_int (longitude com) \<noteq> META_START_CA_OFF_LON d"
  shows "gcs_command_callback d cav com s = s"
  using assms by (simp add: gcs_command_callback_def)

theorem unknown_meta_code_dropped_witness:
  "my_planeID (example_mover ST_GREEN_CA_ON [wp 7 5 6 7]) = planeID (wp 7 (-2000) 9 0)
   \<and> latitude (wp 7 (-2000) 9 0) = EMERGENCY_PROTOCOL_LAT example_defs
   \<and> int_convertible (longitude (wp 7 (-2000) 9 0))
   \<and> to_int (longitude (wp 7 (-2000) 9 0)) \<noteq> META_START_CA_ON_LON example_defs
   \<and> to_int (longitude (wp 7 (-2000) 9 0)) \<noteq> META_STOP_LON example_defs
   \<and> to_int (longitude (wp 7 (-2000) 9 0)) \<noteq> META_START_CA_OFF_LON example_defs
   \<and> gcs_command_callback example_defs example_ca (wp 7 (-2000) 9 0)
        (example_mover ST_GREEN_CA_ON [wp 7 5 6 7]) = example_mover ST_GREEN_CA_ON [wp 7 5 6 7]"
proof -
  let ?s = "example_mover ST_GREEN_CA_ON [wp 7 5 6 7] :: Command Mover"
  have i: "my_planeID ?s = planeID (wp 7 (-2000) 9 0)"
    by (simp add: example_mover_def wp_def)
  have l: "latitude (wp 7 (-2000) 9 0) = EMERGENCY_PROTOCOL_LAT example_defs"
    by (simp add: example_defs_def wp_def)
  have r: "int_convertible (longitude (wp 7 (-2000) 9 0))"
    by (simp add: int_convertible_def wp_def to_int_def)
  have t1: "to_int (longitude (wp 7 (-2000) 9 0)) \<noteq> META_START_CA_ON_LON example_defs"
    and t2: "to_int (longitude (wp 7 (-2000) 9 0)) \<noteq> META_STOP_LON example_defs"
    and t3: "to_int (longitude (wp 7 (-2000) 9 0)) \<noteq> META_START_CA_OFF_LON example_defs"
    by (simp_all add: example_defs_def wp_def to_int_def)
  from i l r t1 t2 t3 unknown_meta_code_dropped [OF i l r t1 t2 t3, of example_ca]
  show ?thesis by blast
qed

section \<open>Telemetry\<close>

text \<open>
  C6: pushAvoidance replaces rather than accumulates.  From any queue, pushing
  \<open>A\<close> and then \<open>B\<close> with no pop in between leaves exactly \<open>B\<close> in the queue, and
  after every push the queue holds exactly one entry, the pushed one.
\<close>

theorem pushAvoidance_replaces:
  "ca_wp (pushAvoidance B (pushAvoidance A s)) = [B]
   \<and> ca_wp (pushAvoidance A s) = [A]
   \<and> length (ca_wp (pushAvoidance A s)) = 1"
  by (simp add: pushAvoidance_def)

text \<open>
  C8: let \<open>com\<close> be the candidate of the telemetry callback, the result of
  \<^verbatim>\<open>ca.avoid\<close> or, when testing, the copy of \<^verbatim>\<open>goal_wp\<close>.  If its latitude,
  longitude and altitude all equal \<^verbatim>\<open>INVALID_GPS_COOR\<close>, nothing is pushed and
  the queue is unchanged; otherwise the candidate is pushed and is then the
  only entry of the queue.
\<close>

theorem invalid_candidate_discarded:
  assumes "com = (if is_testing s then goal_wp s else fst (ca_avoid cav telem (ca s)))"
  shows "(latitude com = INVALID_GPS_COOR d \<and> longitude com = INVALID_GPS_COOR d
            \<and> altitude com = INVALID_GPS_COOR d \<longrightarrow>
          all_telem_callback d cav telem s = snd (telem_candidate cav telem s)
          \<and> ca_wp (all_telem_callback d cav telem s) = ca_wp s)
       \<and> (\<not> (latitude com = INVALID_GPS_COOR d \<and> longitude com = INVALID_GPS_COOR d
              \<and> altitude com = INVALID_GPS_COOR d) \<longrightarrow>
          all_telem_callback d cav telem s = pushAvoidance com (snd (telem_candidate cav telem s))
          \<and> ca_wp (all_telem_callback d cav telem s) = [com])"
proof -
  from assms have c: "fst (telem_candidate cav telem s) = com"
    by (simp add: telem_candidate_fst)
  obtain s1 where p: "telem_candidate cav telem s = (com, s1)"
    using c by (cases "telem_candidate cav telem s") simp
  have q: "ca_wp s1 = ca_wp s"
    using ca_wp_telem_candidate [of cav telem s] p by simp
  show ?thesis
    using p q by (simp add: all_telem_callback_def pushAvoidance_def)
qed

theorem invalid_candidate_discarded_witness:
  "wp 7 (-1000) (-1000) (-1000) =
     (if is_testing (example_mover ST_GREEN_CA_ON [wp 7 5 6 7])
      then goal_wp (example_mover ST_GREEN_CA_ON [wp 7 5 6 7])
      else fst (ca_avoid example_ca (wp 7 (-1000) (-1000) (-1000))
                  (ca (example_mover ST_GREEN_CA_ON [wp 7 5 6 7]))))
   \<and> latitude (wp 7 (-1000) (-1000) (-1000)) = INVALID_GPS_COOR example_defs
   \<and> longitude (wp 7 (-1000) (-1000) (-1000)) = INVALID_GPS_COOR example_defs
   \<and> altitude (wp 7 (-1000) (-1000) (-1000)) = INVALID_GPS_COOR example_defs
   \<and> ca_wp (all_telem_callback example_defs example_ca (wp 7 (-1000) (-1000) (-1000))
        (example_mover ST_GREEN_CA_ON [wp 7 5 6 7])) = [wp 7 5 6 7]
   \<and> latitude (wp 7 (-1000) (-1000) 7) = INVALID_GPS_COOR example_defs
   \<and> longitude (wp 7 (-1000) (-1000) 7) = INVALID_GPS_COOR example_defs
   \<and> altitude (wp 7 (-1000) (-1000) 7) \<noteq> INVALID_GPS_COOR example_defs
   \<and> ca_wp (all_telem_callback example_defs example_ca (wp 7 (-1000) (-1000) 7)
        (example_mover ST_GREEN_CA_ON [wp 7 5 6 7])) = [wp 7 (-1000) (-1000) 7]"
proof -
  let ?s = "example_mover ST_GREEN_CA_ON [wp 7 5 6 7] :: Command Mover"
  have a: "com = (if is_testing ?s then goal_wp ?s else fst (ca_avoid example_ca com (ca ?s)))"
    for com
    by (simp add: example_mover_def example_ca_def)
  have q: "ca_wp ?s = [wp 7 5 6 7]"
    by (simp add: example_mover_def)
  have v1: "latitude (wp 7 (-1000) (-1000) (-1000)) = INVALID_GPS_COOR example_defs"
    and v2: "longitude (wp 7 (-1000) (-1000) (-1000)) = INVALID_GPS_COOR example_defs"
    and v3: "altitude (wp 7 (-1000) (-1000) (-1000)) = INVALID_GPS_COOR example_defs"
    and w1: "latitude (wp 7 (-1000) (-1000) 7) = INVALID_GPS_COOR example_defs"
    and w2: "longitude (wp 7 (-1000) (-1000) 7) = INVALID_GPS_COOR example_defs"
    and w3: "altitude (wp 7 (-1000) (-1000) 7) \<noteq> INVALID_GPS_COOR example_defs"
    by (simp_all add: example_defs_def wp_def)
  from invalid_candidate_discarded [OF a, of "wp 7 (-1000) (-1000) (-1000)" example_defs] v1 v2 v3 q
  have r1: "ca_wp (all_telem_callback example_defs example_ca (wp 7 (-1000) (-1000) (-1000)) ?s)
      = [wp 7 5 6 7]"
    by simp
  from invalid_candidate_discarded [OF a, of "wp 7 (-1000) (-1000) 7" example_defs] w3
  have r2: "ca_wp (all_telem_callback example_defs example_ca (wp 7 (-1000) (-1000) 7) ?s)
      = [wp 7 (-1000) (-1000) 7]"
    by blast
  from a [of "wp 7 (-1000) (-1000) (-1000)"] v1 v2 v3 w1 w2 w3 r1 r2 show ?thesis
    by blast
qed

text \<open>
  C9, as stated, fails: the telemetry callback clears the queue before it
  pushes, so a pending entry is removed by it.  Here the pending entry is
  \<open>wp 7 5 6 7\<close> and the new candidate \<open>wp 7 8 9 10\<close>.
\<close>

theorem telemetry_overwrites_pending_entry:
  "wp 7 5 6 7 \<in> set (ca_wp (example_mover ST_GREEN_CA_ON [wp 7 5 6 7]))
   \<and> wp 7 5 6 7 \<notin> set (ca_wp (all_telem_callback example_defs example_ca (wp 7 8 9 10)
          (example_mover ST_GREEN_CA_ON [wp 7 5 6 7])))"
  by (simp add: all_telem_callback_def telem_candidate_def pushAvoidance_def
      example_mover_def example_ca_def example_defs_def wp_def)

text \<open>
  C9, amended: the telemetry callback leaves the queue unchanged or replaces
  its contents by the new candidate; it never leaves the queue empty unless it
  was empty before.  Over all steps of the node, the queue changes only by such
  a replacement or by the loop iteration dropping the front entry.
\<close>

theorem telemetry_keeps_or_replaces:
  "(ca_wp (all_telem_callback d cav telem s) = ca_wp s
    \<or> ca_wp (all_telem_callback d cav telem s) = [fst (telem_candidate cav telem s)])
   \<and> (ca_wp (all_telem_callback d cav telem s) = [] \<longrightarrow> ca_wp s = [])
   \<and> (ca_wp (snd (step d cav e s)) = ca_wp s
      \<or> (e = Tick \<and> ca_wp (snd (step d cav e s)) = tl (ca_wp s))
      \<or> (\<exists>t. e = Telemetry t
            \<and> ca_wp (snd (step d cav e s)) = [fst (telem_candidate cav t s)]))"
proof -
  have handler: "ca_wp (all_telem_callback d cav t s) = ca_wp s
      \<or> ca_wp (all_telem_callback d cav t s) = [fst (telem_candidate cav t s)]" for t
    by (rule ca_wp_all_telem)
  have any: "ca_wp (snd (step d cav e s)) = ca_wp s
      \<or> (e = Tick \<and> ca_wp (snd (step d cav e s)) = tl (ca_wp s))
      \<or> (\<exists>t. e = Telemetry t
            \<and> ca_wp (snd (step d cav e s)) = [fst (telem_candidate cav t s)])"
  proof (cases e)
    case (Telemetry t)
    with handler [of t] show ?thesis by (auto simp add: step_def)
  next
    case (Gcs com)
    then show ?thesis by (simp add: step_def)
  next
    case Tick
    with ca_wp_move_iter [of s] show ?thesis by (auto simp add: step_def)
  qed
  from handler [of telem] any show ?thesis
    by auto
qed

theorem telemetry_keeps_or_replaces_witness:
  "ca_wp (all_telem_callback example_defs example_ca (wp 7 (-1000) (-1000) (-1000))
      (example_mover ST_GREEN_CA_ON [])) = []
   \<and> ca_wp (example_mover ST_GREEN_CA_ON [] :: Command Mover) = []"
proof -
  let ?s = "example_mover ST_GREEN_CA_ON [] :: Command Mover"
  have "ca_wp (all_telem_callback example_defs example_ca (wp 7 (-1000) (-1000) (-1000)) ?s) = []"
    by (simp add: all_telem_callback_def telem_candidate_def pushAvoidance_def
      example_mover_def example_ca_def example_defs_def wp_def)
  with telemetry_keeps_or_replaces [of example_defs example_ca "wp 7 (-1000) (-1000) (-1000)" ?s]
  show ?thesis by blast
qed

section \<open>Start-up\<close>

text \<open>
  C5: the claim that \<^verbatim>\<open>init\<close> seeds the altitude of \<^verbatim>\<open>goal_wp\<close> from the
  service's initial altitude fails on the code.  For the response with id 7 and
  position 1, 2, 3 the node ends with \<^verbatim>\<open>goal_wp.altitude\<close> still 0 and
  \<^verbatim>\<open>initialAlt\<close> equal to the latitude 1: line 129 assigns the latitude a second
  time.  The identifier, latitude, longitude, \<^verbatim>\<open>param\<close> and \<^verbatim>\<open>commandID\<close> are
  seeded, the mode is \<open>ST_RED\<close> and the collision-avoidance object is
  initialised with the id.
\<close>

theorem init_leaves_altitude_unseeded:
  "init example_ca
     (Some \<lparr>response_planeID = 7, initialLatitude = 1, initialLongitude = 2, initialAltitude = 3\<rparr>)
     False fresh_mover =
   Some \<lparr>my_planeID = 7, current_state = ST_RED,
         goal_wp = \<lparr>planeID = 7, latitude = 1, longitude = 2, altitude = 0,
                    param = 2, commandID = 2\<rparr>,
         ca_wp = [], is_testing = False, initialLat = 1, initialLong = 2, initialAlt = 1,
         ca = wp 7 0 0 0\<rparr>"
  by (simp add: init_def seed_from_response_def fresh_mover_def example_ca_def wp_def)

end
